theory Spec2Isabelle
  imports Main "HOL-Library.Sublist"
begin

section \<open>Python values, dictionaries and exceptions\<close>

text \<open>
  The adapters of \<^verbatim>\<open>utils/agents/adapters.py\<close> work on \<^verbatim>\<open>dict[str, Any]\<close>
  messages and build keyword dictionaries for the vendor calls. A dictionary is an
  association list in insertion order; the values are the JSON-like values the
  adapters handle.
\<close>

datatype pyval =
    PNone
  | PBool bool
  | PInt int
  | PStr string
  | PList "pyval list"
  | PDict "(string \<times> pyval) list"

type_synonym pydict = "(string \<times> pyval) list"

text \<open>
  Every \<^verbatim>\<open>raise\<close> of the source is a value. \<open>ExternalError\<close> stands for whatever
  an external collaborator (a vendor call, a library constructor) raises.
\<close>

datatype error =
    ValueError string
  | ImportError string
  | TypeError
  | KeyError
  | IndexError
  | ExternalError string

text \<open>\<^verbatim>\<open>d.get(k)\<close>: the value stored under \<open>k\<close>, \<^verbatim>\<open>None\<close> when the key is missing.\<close>

definition dict_get :: "pydict \<Rightarrow> string \<Rightarrow> pyval" where
  "dict_get d k = (case map_of d k of None \<Rightarrow> PNone | Some v \<Rightarrow> v)"

text \<open>
  \<^verbatim>\<open>d[k] = v\<close>: an existing key keeps its position and gets the new value, a new key
  is appended.
\<close>

fun dict_set :: "pydict \<Rightarrow> string \<Rightarrow> pyval \<Rightarrow> pydict" where
  "dict_set [] k v = [(k, v)]"
| "dict_set ((k', v') # d) k v =
     (if k' = k then (k', v) # d else (k', v') # dict_set d k v)"

text \<open>\<^verbatim>\<open>d.update(other)\<close>: the items of \<open>other\<close> are stored into \<open>d\<close> one by one.\<close>

definition dict_update :: "pydict \<Rightarrow> pydict \<Rightarrow> pydict" where
  "dict_update d other = fold (\<lambda>(k, v) acc. dict_set acc k v) other d"

text \<open>\<^verbatim>\<open>x or y\<close> on lists: the empty list is falsy.\<close>

definition list_or :: "'a list \<Rightarrow> 'a list \<Rightarrow> 'a list" where
  "list_or xs ys = (if xs = [] then ys else xs)"

text \<open>\<^verbatim>\<open>sep.join(xs)\<close>.\<close>

fun join :: "string \<Rightarrow> string list \<Rightarrow> string" where
  "join sep [] = []"
| "join sep [x] = x"
| "join sep (x # y # ys) = x @ sep @ join sep (y # ys)"

section \<open>AnthropicAdapter\<close>

text \<open>
  \<^verbatim>\<open>to_antrophic\<close> is imported from \<^verbatim>\<open>.messages\<close>, which is not part of the
  sources at hand; it is a parameter \<open>to_antrophic\<close> of the model, a function from a
  message to its list of content blocks.
\<close>

definition empty_text_block :: pyval where
  "empty_text_block = PDict [(''type'', PStr ''text''), (''text'', PStr '''')]"

text \<open>
  The loop of \<^verbatim>\<open>AnthropicAdapter._split\<close>, with the two variables it assigns
  (\<^verbatim>\<open>system\<close>, \<^verbatim>\<open>history\<close>) as the state.
\<close>

fun split_loop ::
  "(pydict \<Rightarrow> pyval list) \<Rightarrow> pydict list \<Rightarrow> pyval \<times> pyval list \<Rightarrow> pyval \<times> pyval list"
where
  "split_loop to_antrophic [] (system, history) = (system, history)"
| "split_loop to_antrophic (m # ms) (system, history) =
     (let role = dict_get m ''role'';
          blocks = to_antrophic m
      in if role = PStr ''system''
         then split_loop to_antrophic ms
                (PList (list_or blocks [empty_text_block]), history)
         else split_loop to_antrophic ms
                (system,
                 history @
                 [PDict [(''role'', PStr (if role = PStr ''user'' then ''user'' else ''assistant'')),
                         (''content'', PList (list_or blocks [empty_text_block]))]]))"

definition AnthropicAdapter_split ::
  "(pydict \<Rightarrow> pyval list) \<Rightarrow> pydict list \<Rightarrow> pyval \<times> pyval list"
where
  "AnthropicAdapter_split to_antrophic messages =
     split_loop to_antrophic messages (PNone, [])"

text \<open>
  The vendor's \<^verbatim>\<open>Message\<close>: a list of content blocks, each with a type (read
  with \<^verbatim>\<open>getattr(c, 'type', None)\<close>, so it may be missing) and a text.
\<close>

record ContentBlock =
  block_type :: "string option"
  block_text :: string

record Message =
  msg_content :: "ContentBlock list"

text \<open>What every adapter instance holds, and what the OpenAI-compatible ones add.\<close>

record Adapter =
  model :: string

record OpenAIAdapter = Adapter +
  allow_system :: bool

record GoogleGeminiAdapter = Adapter +
  client_api_key :: string

text \<open>
  A call of \<^verbatim>\<open>complete\<close> returns the requests it sent to the vendor, in order,
  and its result or the exception it raised.
\<close>

type_synonym 'a outcome = "pydict list \<times> (error + 'a)"

text \<open>Lines 134 to 140: the keyword dictionary of the vendor call.\<close>

definition AnthropicAdapter_params ::
  "(pydict \<Rightarrow> pyval list) \<Rightarrow> 'a Adapter_scheme \<Rightarrow> pydict list \<Rightarrow> int \<Rightarrow> pydict \<Rightarrow> pydict"
where
  "AnthropicAdapter_params to_antrophic self messages max_output_tokens kwargs =
     (case AnthropicAdapter_split to_antrophic messages of
        (system, history) \<Rightarrow>
          dict_update
            [(''model'', PStr (model self)),
             (''system'', system),
             (''messages'', PList history),
             (''max_tokens'', PInt max_output_tokens)]
            kwargs)"

text \<open>Lines 143 to 145: the text of the response.\<close>

definition AnthropicAdapter_text :: "Message \<Rightarrow> string" where
  "AnthropicAdapter_text resp =
     join '''' (map block_text (filter (\<lambda>c. block_type c = Some ''text'') (msg_content resp)))"

text \<open>
  \<^verbatim>\<open>AnthropicAdapter.complete\<close>; \<open>messages_create\<close> is the vendor call
  \<^verbatim>\<open>self.client.messages.create\<close>.
\<close>

definition AnthropicAdapter_complete ::
  "(pydict \<Rightarrow> pyval list) \<Rightarrow> (pydict \<Rightarrow> error + Message) \<Rightarrow> 'a Adapter_scheme \<Rightarrow>
   pydict list \<Rightarrow> int \<Rightarrow> pydict \<Rightarrow> string outcome"
where
  "AnthropicAdapter_complete to_antrophic messages_create self messages max_output_tokens kwargs =
     (let params = AnthropicAdapter_params to_antrophic self messages max_output_tokens kwargs
      in ([params],
          case messages_create params of
            Inl e \<Rightarrow> Inl e
          | Inr resp \<Rightarrow> Inr (AnthropicAdapter_text resp)))"

section \<open>OpenAIAdapter and LocalAdapter\<close>

text \<open>\<^verbatim>\<open>x[k]\<close> for a string key and \<^verbatim>\<open>x[0]\<close>, on the values of \<open>pyval\<close>.\<close>

fun subscript_key :: "pyval \<Rightarrow> string \<Rightarrow> error + pyval" where
  "subscript_key (PDict d) k = (case map_of d k of None \<Rightarrow> Inl KeyError | Some v \<Rightarrow> Inr v)"
| "subscript_key _ k = Inl TypeError"

fun subscript_0 :: "pyval \<Rightarrow> error + pyval" where
  "subscript_0 (PList []) = Inl IndexError"
| "subscript_0 (PList (x # xs)) = Inr x"
| "subscript_0 (PStr []) = Inl IndexError"
| "subscript_0 (PStr (c # cs)) = Inr (PStr [c])"
| "subscript_0 (PDict d) = Inl KeyError"
| "subscript_0 _ = Inl TypeError"

definition bind :: "error + 'a \<Rightarrow> ('a \<Rightarrow> error + 'b) \<Rightarrow> error + 'b" where
  "bind r f = (case r of Inl e \<Rightarrow> Inl e | Inr x \<Rightarrow> f x)"

text \<open>\<^verbatim>\<open>resp['choices'][0]['message']['content']\<close>.\<close>

definition first_choice_content :: "pyval \<Rightarrow> error + pyval" where
  "first_choice_content resp =
     bind (subscript_key resp ''choices'') (\<lambda>choices.
     bind (subscript_0 choices) (\<lambda>choice.
     bind (subscript_key choice ''message'') (\<lambda>message.
     subscript_key message ''content'')))"

text \<open>
  \<^verbatim>\<open>normalize_messages\<close> is imported from \<^verbatim>\<open>.messages\<close> as well; it is the
  parameter \<open>normalize_messages\<close>, called with the messages and the keyword arguments
  the adapter passes. \<open>create\<close> is the vendor call \<^verbatim>\<open>openai.ChatCompletion.create\<close>.
\<close>

definition OpenAIAdapter_complete ::
  "(pydict list \<Rightarrow> pydict \<Rightarrow> error + pydict list) \<Rightarrow> (pydict \<Rightarrow> error + pyval) \<Rightarrow>
   'a OpenAIAdapter_scheme \<Rightarrow> pydict list \<Rightarrow> int \<Rightarrow> pydict \<Rightarrow> pyval outcome"
where
  "OpenAIAdapter_complete normalize_messages create self messages max_output_tokens kwargs =
     (case normalize_messages messages [(''allow_system'', PBool (allow_system self))] of
        Inl e \<Rightarrow> ([], Inl e)
      | Inr norm_messages \<Rightarrow>
          if norm_messages = []
          then ([], Inl (ValueError ''After normalization, no valid user/assistant messages remain.''))
          else
            let params =
                  dict_update
                    [(''model'', PStr (model self)),
                     (''messages'', PList (map PDict norm_messages)),
                     (''max_tokens'', PInt max_output_tokens)]
                    kwargs
            in ([params], bind (create params) first_choice_content))"

definition LocalAdapter_complete ::
  "(pydict list \<Rightarrow> pydict \<Rightarrow> error + pydict list) \<Rightarrow> (pydict \<Rightarrow> error + pyval) \<Rightarrow>
   'a OpenAIAdapter_scheme \<Rightarrow> pydict list \<Rightarrow> int \<Rightarrow> pydict \<Rightarrow> pyval outcome"
where
  "LocalAdapter_complete normalize_messages create self messages max_output_tokens kwargs =
     (case normalize_messages messages
             [(''merge_system_into_user'', PBool True),
              (''keep_system'', PBool (allow_system self))] of
        Inl e \<Rightarrow> ([], Inl e)
      | Inr norm_messages \<Rightarrow>
          if norm_messages = []
          then ([], Inl (ValueError
                 ''After normalization, no valid user/assistant messages remain for local model.''))
          else
            let params =
                  dict_update
                    [(''model'', PStr (model self)),
                     (''messages'', PList (map PDict norm_messages)),
                     (''max_tokens'', PInt max_output_tokens)]
                    kwargs
            in ([params], bind (create params) first_choice_content))"

section \<open>GoogleGeminiAdapter\<close>

text \<open>
  \<^verbatim>\<open>__init__\<close>: \<open>genai\<close> and \<open>genai_types\<close> say whether the two optional imports
  at the top of the module succeeded (they are \<^verbatim>\<open>None\<close> otherwise); the API key may
  be \<^verbatim>\<open>None\<close> or empty.
\<close>

definition GoogleGeminiAdapter_init ::
  "bool \<Rightarrow> bool \<Rightarrow> string option \<Rightarrow> string \<Rightarrow> error + GoogleGeminiAdapter"
where
  "GoogleGeminiAdapter_init genai genai_types api_key model_name =
     (if \<not> genai \<or> \<not> genai_types
      then Inl (ImportError ''google-genai is not installed. Run `uv pip install google-genai`.'')
      else case api_key of
             None \<Rightarrow>
               Inl (ValueError
                 ''Missing Gemini API key. Set GEMINI_API_KEY or pass api_key explicitly.'')
           | Some k \<Rightarrow>
               if k = []
               then Inl (ValueError
                 ''Missing Gemini API key. Set GEMINI_API_KEY or pass api_key explicitly.'')
               else Inr \<lparr>model = model_name, client_api_key = k\<rparr>)"

text \<open>
  The vendor's response, every attribute read with a default:
  \<^verbatim>\<open>{text?, candidates?: [{content?: {parts?: [{text?}]}}]}\<close>.
\<close>

record Part =
  part_text :: "string option"

record Content =
  content_parts :: "Part list option"

record Candidate =
  candidate_content :: "Content option"

record GenerateContentResponse =
  resp_text :: "string option"
  resp_candidates :: "Candidate list option"

text \<open>\<^verbatim>\<open>getattr(x, name, []) or []\<close>.\<close>

definition attr_list :: "'a list option \<Rightarrow> 'a list" where
  "attr_list a = (case a of None \<Rightarrow> [] | Some xs \<Rightarrow> xs)"

text \<open>The inner and the outer loop of lines 189 to 194, with \<^verbatim>\<open>texts\<close> as the state.\<close>

fun parts_loop :: "Part list \<Rightarrow> string list \<Rightarrow> string list" where
  "parts_loop [] texts = texts"
| "parts_loop (part # ps) texts =
     (case part_text part of
        None \<Rightarrow> parts_loop ps texts
      | Some text \<Rightarrow>
          if text \<noteq> [] then parts_loop ps (texts @ [text]) else parts_loop ps texts)"

fun candidates_loop :: "Candidate list \<Rightarrow> string list \<Rightarrow> string list" where
  "candidates_loop [] texts = texts"
| "candidates_loop (candidate # cs) texts =
     candidates_loop cs
       (parts_loop
          (case candidate_content candidate of
             None \<Rightarrow> []
           | Some content \<Rightarrow> attr_list (content_parts content))
          texts)"

definition GoogleGeminiAdapter_text :: "GenerateContentResponse \<Rightarrow> string" where
  "GoogleGeminiAdapter_text resp =
     (if (case resp_text resp of None \<Rightarrow> False | Some t \<Rightarrow> t \<noteq> [])
      then (case resp_text resp of None \<Rightarrow> [] | Some t \<Rightarrow> t)
      else join [CHR 0x0A] (candidates_loop (attr_list (resp_candidates resp)) []))"

text \<open>
  A call \<^verbatim>\<open>f(k1=v1, ..., **kwargs)\<close>: Python raises \<^verbatim>\<open>TypeError\<close> when a key of
  \<^verbatim>\<open>kwargs\<close> repeats one of the keywords written out.
\<close>

definition keyword_args :: "pydict \<Rightarrow> pydict \<Rightarrow> error + pydict" where
  "keyword_args explicit kwargs =
     (if list_ex (\<lambda>k. List.member (map fst explicit) k) (map fst kwargs)
      then Inl TypeError
      else Inr (explicit @ kwargs))"

text \<open>
  \<^verbatim>\<open>GoogleGeminiAdapter.complete\<close>. \<^verbatim>\<open>to_gemini_messages\<close> (from \<^verbatim>\<open>.messages\<close>),
  the library's constructor \<^verbatim>\<open>GenerateContentConfig\<close> and the vendor call
  \<^verbatim>\<open>self.client.models.generate_content\<close> are parameters.
\<close>

definition GoogleGeminiAdapter_complete ::
  "(pydict list \<Rightarrow> pyval \<times> pyval list) \<Rightarrow> (pydict \<Rightarrow> error + pyval) \<Rightarrow>
   (pydict \<Rightarrow> error + GenerateContentResponse) \<Rightarrow> 'a Adapter_scheme \<Rightarrow>
   pydict list \<Rightarrow> int \<Rightarrow> pydict \<Rightarrow> string outcome"
where
  "GoogleGeminiAdapter_complete to_gemini_messages GenerateContentConfig generate_content
       self messages max_output_tokens kwargs =
     (case to_gemini_messages messages of
        (system_instruction, contents) \<Rightarrow>
          if contents = []
          then ([], Inl (ValueError ''After normalization, no valid messages remain for Gemini.''))
          else
            (case bind (keyword_args
                          [(''max_output_tokens'', PInt max_output_tokens),
                           (''system_instruction'', system_instruction)]
                          kwargs)
                       GenerateContentConfig of
               Inl e \<Rightarrow> ([], Inl e)
             | Inr config \<Rightarrow>
                 let request =
                       [(''model'', PStr (model self)),
                        (''contents'', PList contents),
                        (''config'', config)]
                 in ([request],
                     case generate_content request of
                       Inl e \<Rightarrow> Inl e
                     | Inr resp \<Rightarrow> Inr (GoogleGeminiAdapter_text resp))))"

section \<open>Calling \<^verbatim>\<open>complete\<close>\<close>

text \<open>
  The definitions of \<^verbatim>\<open>complete\<close> above are the methods with their arguments bound:
  \<open>kwargs\<close> is the dictionary Python binds to \<^verbatim>\<open>**kwargs\<close>. A caller writes
  \<^verbatim>\<open>adapter.complete(messages, max_output_tokens, **options)\<close>; an option with the
  name of a parameter of the method never reaches \<open>kwargs\<close>: Python raises
  \<^verbatim>\<open>TypeError\<close> (multiple values for the argument) before the body runs.
\<close>

definition named_parameters :: "string list" where
  "named_parameters = [''self'', ''messages'', ''max_output_tokens'']"

definition call_complete :: "(pydict \<Rightarrow> 'a outcome) \<Rightarrow> pydict \<Rightarrow> 'a outcome" where
  "call_complete complete options =
     (if list_ex (\<lambda>k. List.member named_parameters k) (map fst options)
      then ([], Inl TypeError)
      else complete options)"

section \<open>The Normalizer\<close>

text \<open>
  Modelled from the spec: the Normalizer, \<^verbatim>\<open>normalize_messages\<close> of
  \<^verbatim>\<open>utils/agents/messages.py\<close>, a module that is missing from the sources. The
  definitions of this section follow the specification: the contract of section 4.1,
  the invariants of a normalized conversation in section 3, and the properties and
  scenarios of section 8. A turn carries one of the three roles the contract admits
  (unrecognized roles are rejected) and a text content.
\<close>

datatype Role = System | User | Assistant

record ChatTurn =
  role :: Role
  content :: string










section \<open>Notions used by the statements\<close>

text \<open>A message whose role is \<^verbatim>\<open>'system'\<close>, and the field of a history entry.\<close>

definition system_message :: "pydict \<Rightarrow> bool" where
  "system_message m = (dict_get m ''role'' = PStr ''system'')"

definition non_system :: "pydict list \<Rightarrow> pydict list" where
  "non_system messages = filter (\<lambda>m. \<not> system_message m) messages"

fun entry_field :: "pyval \<Rightarrow> string \<Rightarrow> pyval" where
  "entry_field (PDict d) k = dict_get d k"
| "entry_field _ k = PNone"

text \<open>
  The text blocks of an Anthropic response, concatenated in order with nothing between
  them; a block of another type adds nothing.
\<close>

fun text_of_blocks :: "ContentBlock list \<Rightarrow> string" where
  "text_of_blocks [] = []"
| "text_of_blocks (c # cs) =
     (if block_type c = Some ''text'' then block_text c @ text_of_blocks cs
      else text_of_blocks cs)"

text \<open>The texts of all parts of all candidates of a Gemini response that have one, in order.\<close>

definition part_texts :: "Part list \<Rightarrow> string list" where
  "part_texts ps = concat (map (\<lambda>p. case part_text p of None \<Rightarrow> [] | Some t \<Rightarrow> [t]) ps)"

definition candidate_parts :: "Candidate \<Rightarrow> Part list" where
  "candidate_parts c =
     (case candidate_content c of None \<Rightarrow> [] | Some ct \<Rightarrow> attr_list (content_parts ct))"

definition response_text_parts :: "GenerateContentResponse \<Rightarrow> string list" where
  "response_text_parts resp =
     concat (map (\<lambda>c. part_texts (candidate_parts c)) (attr_list (resp_candidates resp)))"

text \<open>
  Concrete collaborators for the examples: a converter that turns a text content into
  one text block and anything else into no block, and vendor calls that answer with a
  fixed response.
\<close>

definition example_to_antrophic :: "pydict \<Rightarrow> pyval list" where
  "example_to_antrophic m =
     (case dict_get m ''content'' of
        PStr s \<Rightarrow> [PDict [(''type'', PStr ''text''), (''text'', PStr s)]]
      | _ \<Rightarrow> [])"

definition example_message :: Message where
  "example_message =
     \<lparr>msg_content =
        [\<lparr>block_type = Some ''text'', block_text = ''Hel''\<rparr>,
         \<lparr>block_type = Some ''tool_use'', block_text = ''ignored''\<rparr>,
         \<lparr>block_type = None, block_text = ''untyped''\<rparr>,
         \<lparr>block_type = Some ''text'', block_text = ''lo''\<rparr>]\<rparr>"

definition example_messages_create :: "pydict \<Rightarrow> error + Message" where
  "example_messages_create params = Inr example_message"

definition example_to_gemini_messages :: "pydict list \<Rightarrow> pyval \<times> pyval list" where
  "example_to_gemini_messages messages =
     (PNone,
      map (\<lambda>m. PDict [(''role'', PStr ''user''),
                       (''parts'', PList [PDict [(''text'', dict_get m ''content'')]])])
          messages)"

definition example_GenerateContentConfig :: "pydict \<Rightarrow> error + pyval" where
  "example_GenerateContentConfig arguments = Inr (PDict arguments)"

definition example_response :: GenerateContentResponse where
  "example_response =
     \<lparr>resp_text = None,
      resp_candidates =
        Some [\<lparr>candidate_content =
                 Some \<lparr>content_parts =
                         Some [\<lparr>part_text = Some ''a''\<rparr>, \<lparr>part_text = None\<rparr>,
                               \<lparr>part_text = Some ''b''\<rparr>]\<rparr>\<rparr>]\<rparr>"

definition example_generate_content :: "pydict \<Rightarrow> error + GenerateContentResponse" where
  "example_generate_content request = Inr example_response"

definition example_normalize_messages :: "pydict list \<Rightarrow> pydict \<Rightarrow> error + pydict list" where
  "example_normalize_messages messages keywords = Inr messages"

definition example_create :: "pydict \<Rightarrow> error + pyval" where
  "example_create params =
     Inr (PDict [(''choices'',
                  PList [PDict [(''message'', PDict [(''content'', PStr ''ok'')])]])])"

section \<open>Dictionaries and joins\<close>

lemma join_empty_sep: "join [] xs = concat xs"
  by (induction "[] :: string" xs rule: join.induct) simp_all

lemma map_of_dict_set: "map_of (dict_set d k v) = (map_of d)(k \<mapsto> v)"
  by (induction d k v rule: dict_set.induct) auto

lemma map_of_fold_dict_set:
  "map_of (fold (\<lambda>(k, v) acc. dict_set acc k v) other d) = map_of d ++ map_of (rev other)"
proof (induction other arbitrary: d)
  case Nil
  then show ?case by simp
next
  case (Cons kv other)
  obtain k v where kv: "kv = (k, v)" by (cases kv)
  have "map_of (fold (\<lambda>(k, v) acc. dict_set acc k v) (kv # other) d) =
        (map_of d)(k \<mapsto> v) ++ map_of (rev other)"
    by (simp add: kv Cons.IH map_of_dict_set fun_upd_def)
  also have "\<dots> = map_of d ++ map_of (rev (kv # other))"
    by (simp add: kv)
  finally show ?case .
qed

lemma map_of_rev_distinct:
  "distinct (map fst xs) \<Longrightarrow> map_of (rev xs) = map_of xs"
proof (induction xs)
  case Nil
  then show ?case by simp
next
  case (Cons x xs)
  obtain k v where x: "x = (k, v)" by (cases x)
  from Cons.prems have notin: "map_of xs k = None"
    by (simp add: x map_of_eq_None_iff)
  from Cons have IH: "map_of (rev xs) = map_of xs" by simp
  show ?case
    using notin by (auto simp: x IH fun_eq_iff map_add_def split: option.splits)
qed

text \<open>
  After \<^verbatim>\<open>d.update(other)\<close> a key of \<open>other\<close> has the value \<open>other\<close> gives it, and
  every other key keeps the value it had in \<open>d\<close>.
\<close>

lemma map_of_dict_update:
  assumes "distinct (map fst other)"
  shows "map_of (dict_update d other) = map_of d ++ map_of other"
  using assms by (simp add: dict_update_def map_of_fold_dict_set map_of_rev_distinct)

section \<open>The Anthropic converter\<close>

text \<open>
  The loop invariant of \<^verbatim>\<open>_split\<close>: the system variable holds the blocks of the last
  system message seen so far, and the history grows by one entry for every other
  message.
\<close>

lemma split_loop_system:
  "fst (split_loop toa ms (sys, hist)) =
     (if filter system_message ms = [] then sys
      else PList (list_or (toa (last (filter system_message ms))) [empty_text_block]))"
  by (induction ms arbitrary: sys hist) (auto simp: system_message_def Let_def)

lemma split_loop_history:
  "snd (split_loop toa ms (sys, hist)) =
     hist @
     map (\<lambda>m. PDict [(''role'', PStr (if dict_get m ''role'' = PStr ''user''
                                        then ''user'' else ''assistant'')),
                      (''content'', PList (list_or (toa m) [empty_text_block]))])
         (non_system ms)"
  by (induction ms arbitrary: sys hist) (auto simp: system_message_def non_system_def Let_def)

text \<open>
  C1, as the source has it. For every message whose role is not \<^verbatim>\<open>'system'\<close>, the
  history entry's role is \<^verbatim>\<open>'user'\<close> exactly when the message's role is
  \<^verbatim>\<open>'user'\<close>, and \<^verbatim>\<open>'assistant'\<close> for every other role, an unknown or a missing
  one included: line 121 reads \<^verbatim>\<open>'user' if role == 'user' else 'assistant'\<close>. No
  entry gets the role \<^verbatim>\<open>'system'\<close>.
\<close>

theorem split_role_is_user_iff_user:
  "map (\<lambda>e. entry_field e ''role'') (snd (AnthropicAdapter_split to_antrophic messages)) =
   map (\<lambda>m. if dict_get m ''role'' = PStr ''user'' then PStr ''user'' else PStr ''assistant'')
       (non_system messages)"
  by (simp add: AnthropicAdapter_split_def split_loop_history dict_get_def comp_def)

text \<open>
  C1, as it is stated, asks for the role \<^verbatim>\<open>'user'\<close> whenever the message's role is
  neither \<^verbatim>\<open>'system'\<close> nor \<^verbatim>\<open>'assistant'\<close>. A message with the role
  \<^verbatim>\<open>'tool'\<close> is such a message, and its entry has the role \<^verbatim>\<open>'assistant'\<close>.
\<close>

theorem split_tool_role_becomes_assistant:
  "dict_get [(''role'', PStr ''tool''), (''content'', PStr ''x'')] ''role'' \<noteq> PStr ''system'' \<and>
   dict_get [(''role'', PStr ''tool''), (''content'', PStr ''x'')] ''role'' \<noteq> PStr ''assistant'' \<and>
   map (\<lambda>e. entry_field e ''role'')
     (snd (AnthropicAdapter_split example_to_antrophic
             [[(''role'', PStr ''tool''), (''content'', PStr ''x'')]])) = [PStr ''assistant'']"
  by (simp add: AnthropicAdapter_split_def dict_get_def Let_def)

text \<open>
  C5. The history has exactly one entry for every message that is not a system
  message, in the order of the messages; the content of an entry is the converter's
  block list, or the single block \<^verbatim>\<open>{'type': 'text', 'text': ''}\<close> when that list is
  empty, so no entry has an empty content list; and the system value is \<^verbatim>\<open>None\<close> if
  and only if there is no system message.
\<close>

theorem split_history_one_entry_per_turn:
  "length (snd (AnthropicAdapter_split to_antrophic messages)) = length (non_system messages) \<and>
   map (\<lambda>e. entry_field e ''content'') (snd (AnthropicAdapter_split to_antrophic messages)) =
     map (\<lambda>m. PList (if to_antrophic m = []
                       then [PDict [(''type'', PStr ''text''), (''text'', PStr '''')]]
                       else to_antrophic m))
         (non_system messages) \<and>
   list_all (\<lambda>e. entry_field e ''content'' \<noteq> PList [])
     (snd (AnthropicAdapter_split to_antrophic messages)) \<and>
   (fst (AnthropicAdapter_split to_antrophic messages) = PNone) =
     (filter system_message messages = [])"
  by (simp add: AnthropicAdapter_split_def split_loop_history split_loop_system dict_get_def
      comp_def list_or_def list_all_iff empty_text_block_def)

theorem split_history_one_entry_per_turn_witness:
  "AnthropicAdapter_split example_to_antrophic
     [[(''role'', PStr ''system''), (''content'', PStr ''Be terse.'')],
      [(''role'', PStr ''user''), (''content'', PStr ''Hi'')],
      [(''role'', PStr ''assistant''), (''content'', PNone)]] =
   (PList [PDict [(''type'', PStr ''text''), (''text'', PStr ''Be terse.'')]],
    [PDict [(''role'', PStr ''user''),
            (''content'', PList [PDict [(''type'', PStr ''text''), (''text'', PStr ''Hi'')]])],
     PDict [(''role'', PStr ''assistant''),
            (''content'', PList [PDict [(''type'', PStr ''text''), (''text'', PStr '''')]])]]) \<and>
   length (snd (AnthropicAdapter_split example_to_antrophic
     [[(''role'', PStr ''system''), (''content'', PStr ''Be terse.'')],
      [(''role'', PStr ''user''), (''content'', PStr ''Hi'')],
      [(''role'', PStr ''assistant''), (''content'', PNone)]])) = 2"
  using split_history_one_entry_per_turn [of example_to_antrophic
     "[[(''role'', PStr ''system''), (''content'', PStr ''Be terse.'')],
       [(''role'', PStr ''user''), (''content'', PStr ''Hi'')],
       [(''role'', PStr ''assistant''), (''content'', PNone)]]"]
  by (simp add: AnthropicAdapter_split_def dict_get_def Let_def example_to_antrophic_def
      list_or_def non_system_def system_message_def empty_text_block_def)

text \<open>
  C10. \<^verbatim>\<open>complete\<close> hands the caller's messages to \<^verbatim>\<open>_split\<close> as they are: the
  one request it sends carries the system value and the history that \<^verbatim>\<open>_split\<close>
  computes from the raw messages. The system value is the block list of the last
  system message alone: whatever comes before a system message, earlier system
  messages included, has no effect on it.
\<close>

theorem complete_splits_raw_messages_last_system_wins:
  "fst (AnthropicAdapter_complete to_antrophic messages_create self messages n kwargs) =
     [dict_update
        [(''model'', PStr (model self)),
         (''system'', fst (AnthropicAdapter_split to_antrophic messages)),
         (''messages'', PList (snd (AnthropicAdapter_split to_antrophic messages))),
         (''max_tokens'', PInt n)]
        kwargs] \<and>
   fst (AnthropicAdapter_split to_antrophic messages) =
     (if filter system_message messages = [] then PNone
      else PList (list_or (to_antrophic (last (filter system_message messages)))
                    [empty_text_block])) \<and>
   fst (AnthropicAdapter_split to_antrophic (earlier @ messages)) =
     (if filter system_message messages = []
      then fst (AnthropicAdapter_split to_antrophic earlier)
      else fst (AnthropicAdapter_split to_antrophic messages))"
proof (intro conjI)
  show "fst (AnthropicAdapter_complete to_antrophic messages_create self messages n kwargs) =
     [dict_update
        [(''model'', PStr (model self)),
         (''system'', fst (AnthropicAdapter_split to_antrophic messages)),
         (''messages'', PList (snd (AnthropicAdapter_split to_antrophic messages))),
         (''max_tokens'', PInt n)]
        kwargs]"
    by (simp add: AnthropicAdapter_complete_def AnthropicAdapter_params_def Let_def
        case_prod_beta)
next
  show "fst (AnthropicAdapter_split to_antrophic messages) =
     (if filter system_message messages = [] then PNone
      else PList (list_or (to_antrophic (last (filter system_message messages)))
                    [empty_text_block]))"
    by (simp add: AnthropicAdapter_split_def split_loop_system)
next
  show "fst (AnthropicAdapter_split to_antrophic (earlier @ messages)) =
     (if filter system_message messages = []
      then fst (AnthropicAdapter_split to_antrophic earlier)
      else fst (AnthropicAdapter_split to_antrophic messages))"
    by (simp add: AnthropicAdapter_split_def split_loop_system)
qed

theorem complete_splits_raw_messages_last_system_wins_witness:
  "fst (AnthropicAdapter_split example_to_antrophic
     [[(''role'', PStr ''system''), (''content'', PStr ''A'')],
      [(''role'', PStr ''user''), (''content'', PStr ''Hi'')],
      [(''role'', PStr ''system''), (''content'', PStr ''B'')]]) =
   PList [PDict [(''type'', PStr ''text''), (''text'', PStr ''B'')]]"
  using complete_splits_raw_messages_last_system_wins [of example_to_antrophic
     example_messages_create "\<lparr>model = ''claude''\<rparr>"
     "[[(''role'', PStr ''system''), (''content'', PStr ''A'')],
       [(''role'', PStr ''user''), (''content'', PStr ''Hi'')],
       [(''role'', PStr ''system''), (''content'', PStr ''B'')]]" 16 "[]" "[]"]
  by (simp add: system_message_def dict_get_def example_to_antrophic_def list_or_def)

section \<open>Text extraction\<close>

lemma text_of_blocks_concat:
  "text_of_blocks cs = concat (map block_text (filter (\<lambda>c. block_type c = Some ''text'') cs))"
  by (induction cs) simp_all

lemma AnthropicAdapter_text_eq: "AnthropicAdapter_text resp = text_of_blocks (msg_content resp)"
  by (simp add: AnthropicAdapter_text_def join_empty_sep text_of_blocks_concat)

text \<open>
  C3. Whatever \<^verbatim>\<open>Message\<close> the vendor call returns for the request,
  \<^verbatim>\<open>AnthropicAdapter.complete\<close> returns the texts of the blocks whose type is
  \<^verbatim>\<open>'text'\<close>, concatenated in the order of the response with nothing between them; a
  block of any other type, or without a type, adds nothing.
\<close>

theorem anthropic_complete_concatenates_text_blocks:
  assumes "messages_create (AnthropicAdapter_params to_antrophic self messages n kwargs) = Inr resp"
  shows "snd (AnthropicAdapter_complete to_antrophic messages_create self messages n kwargs) =
         Inr (text_of_blocks (msg_content resp))"
  using assms by (simp add: AnthropicAdapter_complete_def Let_def AnthropicAdapter_text_eq)

theorem anthropic_complete_concatenates_text_blocks_witness:
  "snd (AnthropicAdapter_complete example_to_antrophic example_messages_create
          \<lparr>model = ''claude''\<rparr> [[(''role'', PStr ''user''), (''content'', PStr ''Hi'')]] 16 []) =
   Inr ''Hello''"
proof -
  have h: "example_messages_create
             (AnthropicAdapter_params example_to_antrophic \<lparr>model = ''claude''\<rparr>
                [[(''role'', PStr ''user''), (''content'', PStr ''Hi'')]] 16 []) =
           Inr example_message"
    by (simp add: example_messages_create_def)
  show ?thesis
    using anthropic_complete_concatenates_text_blocks [where messages_create = example_messages_create
        and to_antrophic = example_to_antrophic, OF h]
    by (simp add: example_message_def)
qed

lemma parts_loop_eq:
  "parts_loop ps texts = texts @ filter (\<lambda>t. t \<noteq> []) (part_texts ps)"
  by (induction ps arbitrary: texts) (auto simp: part_texts_def split: option.splits)

lemma candidates_loop_eq:
  "candidates_loop cs texts =
     texts @ filter (\<lambda>t. t \<noteq> []) (concat (map (\<lambda>c. part_texts (candidate_parts c)) cs))"
  by (induction cs arbitrary: texts) (auto simp: parts_loop_eq candidate_parts_def split: option.splits)

lemma GoogleGeminiAdapter_text_eq:
  "GoogleGeminiAdapter_text resp =
     (case resp_text resp of
        Some t \<Rightarrow> if t \<noteq> [] then t
                  else join [CHR 0x0A] (filter (\<lambda>t. t \<noteq> []) (response_text_parts resp))
      | None \<Rightarrow> join [CHR 0x0A] (filter (\<lambda>t. t \<noteq> []) (response_text_parts resp)))"
  by (simp add: GoogleGeminiAdapter_text_def candidates_loop_eq response_text_parts_def
      split: option.splits)

text \<open>
  C4, as the source has it. When the vendor call returns a response,
  \<^verbatim>\<open>GoogleGeminiAdapter.complete\<close> returns its top-level text if that is present and
  not empty; otherwise it returns the texts of the parts of all candidates, in order,
  that are present and not empty, joined by a newline. Line 193 (\<^verbatim>\<open>if text:\<close>)
  leaves out a part whose text is the empty string.
\<close>

theorem gemini_complete_text_or_nonempty_parts:
  assumes "to_gemini_messages messages = (system_instruction, contents)"
    and "contents \<noteq> []"
    and "bind (keyword_args [(''max_output_tokens'', PInt n),
                             (''system_instruction'', system_instruction)] kwargs)
           GenerateContentConfig = Inr config"
    and "generate_content
           [(''model'', PStr (model self)), (''contents'', PList contents), (''config'', config)] =
         Inr resp"
  shows "snd (GoogleGeminiAdapter_complete to_gemini_messages GenerateContentConfig
                generate_content self messages n kwargs) =
         Inr (case resp_text resp of
                Some t \<Rightarrow> if t \<noteq> [] then t
                          else join [CHR 0x0A] (filter (\<lambda>t. t \<noteq> []) (response_text_parts resp))
              | None \<Rightarrow> join [CHR 0x0A] (filter (\<lambda>t. t \<noteq> []) (response_text_parts resp)))"
  using assms
  by (simp add: GoogleGeminiAdapter_complete_def Let_def GoogleGeminiAdapter_text_eq)

text \<open>
  C4, as it is stated, joins all text parts. For a response without a top-level text
  and with the parts \<^verbatim>\<open>[{text:"a"},{text:""},{text:"b"}]\<close> the adapter returns
  \<^verbatim>\<open>"a\nb"\<close>, while all three text parts joined by a newline are \<^verbatim>\<open>"a\n\nb"\<close>.
\<close>

theorem gemini_empty_text_part_is_skipped:
  "resp_text \<lparr>resp_text = None,
     resp_candidates =
        Some [\<lparr>candidate_content =
                 Some \<lparr>content_parts =
                         Some [\<lparr>part_text = Some ''a''\<rparr>, \<lparr>part_text = Some ''''\<rparr>,
                               \<lparr>part_text = Some ''b''\<rparr>]\<rparr>\<rparr>]\<rparr> = None \<and>
   GoogleGeminiAdapter_text \<lparr>resp_text = None,
     resp_candidates =
        Some [\<lparr>candidate_content =
                 Some \<lparr>content_parts =
                         Some [\<lparr>part_text = Some ''a''\<rparr>, \<lparr>part_text = Some ''''\<rparr>,
                               \<lparr>part_text = Some ''b''\<rparr>]\<rparr>\<rparr>]\<rparr> = ''a'' @ [CHR 0x0A] @ ''b'' \<and>
   join [CHR 0x0A] (response_text_parts \<lparr>resp_text = None,
     resp_candidates =
        Some [\<lparr>candidate_content =
                 Some \<lparr>content_parts =
                         Some [\<lparr>part_text = Some ''a''\<rparr>, \<lparr>part_text = Some ''''\<rparr>,
                               \<lparr>part_text = Some ''b''\<rparr>]\<rparr>\<rparr>]\<rparr>) =
     ''a'' @ [CHR 0x0A] @ [CHR 0x0A] @ ''b''"
  by (simp add: GoogleGeminiAdapter_text_def attr_list_def response_text_parts_def
      part_texts_def candidate_parts_def)

theorem gemini_complete_text_or_nonempty_parts_witness:
  "snd (GoogleGeminiAdapter_complete example_to_gemini_messages example_GenerateContentConfig
          example_generate_content \<lparr>model = ''gemini-2.5-flash''\<rparr>
          [[(''role'', PStr ''user''), (''content'', PStr ''Hi'')]] 16 []) =
   Inr (''a'' @ [CHR 0x0A] @ ''b'')"
proof -
  have h1: "example_to_gemini_messages [[(''role'', PStr ''user''), (''content'', PStr ''Hi'')]] =
     (PNone, [PDict [(''role'', PStr ''user''),
                     (''parts'', PList [PDict [(''text'', PStr ''Hi'')]])]])"
    by (simp add: example_to_gemini_messages_def dict_get_def)
  have h2: "[PDict [(''role'', PStr ''user''),
                     (''parts'', PList [PDict [(''text'', PStr ''Hi'')]])]] \<noteq> []"
    by simp
  have h3: "bind (keyword_args [(''max_output_tokens'', PInt 16),
                             (''system_instruction'', PNone)] [])
           example_GenerateContentConfig =
        Inr (PDict [(''max_output_tokens'', PInt 16), (''system_instruction'', PNone)])"
    by (simp add: bind_def keyword_args_def example_GenerateContentConfig_def)
  have h4: "example_generate_content
           [(''model'', PStr (model \<lparr>model = ''gemini-2.5-flash''\<rparr>)),
            (''contents'', PList [PDict [(''role'', PStr ''user''),
                     (''parts'', PList [PDict [(''text'', PStr ''Hi'')]])]]),
            (''config'', PDict [(''max_output_tokens'', PInt 16), (''system_instruction'', PNone)])] =
         Inr example_response"
    by (simp add: example_generate_content_def)
  show ?thesis
    using gemini_complete_text_or_nonempty_parts [where to_gemini_messages = example_to_gemini_messages
        and GenerateContentConfig = example_GenerateContentConfig
        and generate_content = example_generate_content, OF h1 h2 h3 h4]
    by (simp add: example_response_def response_text_parts_def attr_list_def part_texts_def
        candidate_parts_def)
qed

section \<open>Construction of the Gemini adapter\<close>

text \<open>
  C7. Construction fails with \<^verbatim>\<open>ImportError\<close> when the google-genai library is
  not available, and with \<^verbatim>\<open>ValueError\<close> when the library is there and the API
  key is missing or empty (the library is checked first, so a missing key never gets
  past construction either way). A constructed instance therefore has the library and
  a non-empty API key, and the two exceptions are different ones.
\<close>

theorem gemini_init_errors:
  "(\<not> (genai \<and> genai_types) \<longrightarrow>
      GoogleGeminiAdapter_init genai genai_types api_key model_name =
        Inl (ImportError ''google-genai is not installed. Run `uv pip install google-genai`.'')) \<and>
   (genai \<and> genai_types \<and> (api_key = None \<or> api_key = Some []) \<longrightarrow>
      GoogleGeminiAdapter_init genai genai_types api_key model_name =
        Inl (ValueError ''Missing Gemini API key. Set GEMINI_API_KEY or pass api_key explicitly.'')) \<and>
   (api_key = None \<or> api_key = Some [] \<longrightarrow>
      isl (GoogleGeminiAdapter_init genai genai_types api_key model_name)) \<and>
   (\<forall>adapter. GoogleGeminiAdapter_init genai genai_types api_key model_name = Inr adapter \<longrightarrow>
      genai \<and> genai_types \<and> api_key = Some (client_api_key adapter) \<and>
      client_api_key adapter \<noteq> [] \<and> model adapter = model_name) \<and>
   ImportError import_message \<noteq> ValueError value_message"
  by (auto simp: GoogleGeminiAdapter_init_def split: option.splits)

theorem gemini_init_errors_witness:
  "GoogleGeminiAdapter_init False False (Some ''key'') ''gemini-2.5-flash'' =
     Inl (ImportError ''google-genai is not installed. Run `uv pip install google-genai`.'') \<and>
   GoogleGeminiAdapter_init True True (Some '''') ''gemini-2.5-flash'' =
     Inl (ValueError ''Missing Gemini API key. Set GEMINI_API_KEY or pass api_key explicitly.'') \<and>
   GoogleGeminiAdapter_init True True (Some ''key'') ''gemini-2.5-flash'' =
     Inr \<lparr>model = ''gemini-2.5-flash'', client_api_key = ''key''\<rparr>"
  using gemini_init_errors [of False False "Some ''key''" "''gemini-2.5-flash''"]
    gemini_init_errors [of True True "Some ''''" "''gemini-2.5-flash''"]
    gemini_init_errors [of True True "Some ''key''" "''gemini-2.5-flash''"]
  by (simp add: GoogleGeminiAdapter_init_def)

section \<open>Validation before the vendor call\<close>

text \<open>
  The OpenAI-compatible, the local and the Gemini adapter raise \<^verbatim>\<open>ValueError\<close>
  without sending anything when normalization or conversion leaves nothing.
\<close>

lemma OpenAIAdapter_complete_empty:
  assumes "normalize_messages messages [(''allow_system'', PBool (allow_system self))] = Inr []"
  shows "OpenAIAdapter_complete normalize_messages create self messages n kwargs =
     ([], Inl (ValueError ''After normalization, no valid user/assistant messages remain.''))"
  using assms by (simp add: OpenAIAdapter_complete_def)

lemma LocalAdapter_complete_empty:
  assumes "normalize_messages messages
             [(''merge_system_into_user'', PBool True),
              (''keep_system'', PBool (allow_system self))] = Inr []"
  shows "LocalAdapter_complete normalize_messages create self messages n kwargs =
     ([], Inl (ValueError
        ''After normalization, no valid user/assistant messages remain for local model.''))"
  using assms by (simp add: LocalAdapter_complete_def)

lemma GoogleGeminiAdapter_complete_empty:
  assumes "to_gemini_messages messages = (system_instruction, [])"
  shows "GoogleGeminiAdapter_complete to_gemini_messages GenerateContentConfig generate_content
           self messages n kwargs =
     ([], Inl (ValueError ''After normalization, no valid messages remain for Gemini.''))"
  using assms by (simp add: GoogleGeminiAdapter_complete_def)

text \<open>
  C2 asks of every adapter that it raises a validation error before the vendor call
  when normalization or conversion leaves no turn. \<^verbatim>\<open>AnthropicAdapter.complete\<close> has
  no such check: for an empty message list, and for a conversation that consists of a
  system turn only, the history is empty and the request is sent all the same, with
  \<^verbatim>\<open>messages = []\<close>.
\<close>

theorem anthropic_complete_sends_empty_history:
  "snd (AnthropicAdapter_split to_antrophic []) = [] \<and>
   fst (AnthropicAdapter_complete to_antrophic messages_create self [] n []) =
     [[(''model'', PStr (model self)), (''system'', PNone), (''messages'', PList []),
       (''max_tokens'', PInt n)]] \<and>
   snd (AnthropicAdapter_split to_antrophic
          [[(''role'', PStr ''system''), (''content'', PStr ''X'')]]) = [] \<and>
   fst (AnthropicAdapter_complete to_antrophic messages_create self
          [[(''role'', PStr ''system''), (''content'', PStr ''X'')]] n []) =
     [[(''model'', PStr (model self)),
       (''system'',
        PList (list_or (to_antrophic [(''role'', PStr ''system''), (''content'', PStr ''X'')])
                 [empty_text_block])),
       (''messages'', PList []),
       (''max_tokens'', PInt n)]]"
  by (simp add: AnthropicAdapter_complete_def AnthropicAdapter_params_def
      AnthropicAdapter_split_def Let_def dict_update_def dict_get_def)

section \<open>The parameters of the vendor call\<close>

lemma OpenAIAdapter_complete_params:
  assumes "distinct (map fst kwargs)"
    and "normalize_messages messages [(''allow_system'', PBool (allow_system self))] = Inr norm"
    and "norm \<noteq> []"
  shows "\<exists>params. fst (OpenAIAdapter_complete normalize_messages create self messages n kwargs) =
            [params] \<and>
          map_of params =
            map_of [(''model'', PStr (model self)), (''messages'', PList (map PDict norm)),
                    (''max_tokens'', PInt n)] ++ map_of kwargs"
  using assms by (simp add: OpenAIAdapter_complete_def Let_def map_of_dict_update)

lemma LocalAdapter_complete_params:
  assumes "distinct (map fst kwargs)"
    and "normalize_messages messages
           [(''merge_system_into_user'', PBool True),
            (''keep_system'', PBool (allow_system self))] = Inr norm"
    and "norm \<noteq> []"
  shows "\<exists>params. fst (LocalAdapter_complete normalize_messages create self messages n kwargs) =
            [params] \<and>
          map_of params =
            map_of [(''model'', PStr (model self)), (''messages'', PList (map PDict norm)),
                    (''max_tokens'', PInt n)] ++ map_of kwargs"
  using assms by (simp add: LocalAdapter_complete_def Let_def map_of_dict_update)

lemma AnthropicAdapter_complete_params:
  assumes "distinct (map fst kwargs)"
  shows "\<exists>params. fst (AnthropicAdapter_complete to_antrophic messages_create self messages n kwargs) =
            [params] \<and>
          map_of params =
            map_of [(''model'', PStr (model self)),
                    (''system'', fst (AnthropicAdapter_split to_antrophic messages)),
                    (''messages'', PList (snd (AnthropicAdapter_split to_antrophic messages))),
                    (''max_tokens'', PInt n)] ++ map_of kwargs"
  using assms
  by (simp add: AnthropicAdapter_complete_def AnthropicAdapter_params_def Let_def
      map_of_dict_update case_prod_beta)

lemma keyword_args_no_collision:
  assumes "\<not> list_ex (\<lambda>k. List.member (map fst explicit) k) (map fst kwargs)"
  shows "keyword_args explicit kwargs = Inr (explicit @ kwargs)"
  using assms by (simp add: keyword_args_def)

lemma GoogleGeminiAdapter_complete_request:
  assumes "to_gemini_messages messages = (system_instruction, contents)"
    and "contents \<noteq> []"
  shows "fst (GoogleGeminiAdapter_complete to_gemini_messages GenerateContentConfig
                generate_content self messages n kwargs) =
         (case bind (keyword_args [(''max_output_tokens'', PInt n),
                                   (''system_instruction'', system_instruction)] kwargs)
                 GenerateContentConfig of
            Inl e \<Rightarrow> []
          | Inr config \<Rightarrow>
              [[(''model'', PStr (model self)), (''contents'', PList contents),
                (''config'', config)]])"
  using assms
  by (simp add: GoogleGeminiAdapter_complete_def Let_def split: sum.splits)

lemma repeats_named_parameter:
  "list_ex (\<lambda>k. List.member named_parameters k) (map fst options) =
     (map_of options ''self'' \<noteq> None \<or> map_of options ''messages'' \<noteq> None \<or>
      map_of options ''max_output_tokens'' \<noteq> None)"
proof -
  have "list_ex (\<lambda>k. List.member named_parameters k) (map fst options) =
        (''self'' \<in> fst ` set options \<or> ''messages'' \<in> fst ` set options \<or>
         ''max_output_tokens'' \<in> fst ` set options)"
    unfolding list_ex_iff named_parameters_def by (force simp: image_iff)
  also have "\<dots> = (map_of options ''self'' \<noteq> None \<or> map_of options ''messages'' \<noteq> None \<or>
      map_of options ''max_output_tokens'' \<noteq> None)"
    by (simp add: map_of_eq_None_iff)
  finally show ?thesis .
qed

lemma call_complete_repeated:
  assumes "map_of options ''self'' \<noteq> None \<or> map_of options ''messages'' \<noteq> None \<or>
           map_of options ''max_output_tokens'' \<noteq> None"
  shows "call_complete complete options = ([], Inl TypeError)"
  using assms unfolding call_complete_def repeats_named_parameter by simp

lemma call_complete_bound:
  assumes "map_of options ''self'' = None" and "map_of options ''messages'' = None"
    and "map_of options ''max_output_tokens'' = None"
  shows "call_complete complete options = complete options"
  using assms unfolding call_complete_def repeats_named_parameter by simp

text \<open>
  C6, as the source has it. Let the caller's options be a dictionary. An option with the
  name of a parameter of \<^verbatim>\<open>complete\<close> (\<^verbatim>\<open>messages\<close>, \<^verbatim>\<open>max_output_tokens\<close>,
  \<^verbatim>\<open>self\<close>) makes the call raise \<^verbatim>\<open>TypeError\<close> with nothing sent, for every
  adapter. For all other options the OpenAI-compatible, the local and the Anthropic
  adapter send one request: their base parameters (model, messages, max_tokens, and
  system for Anthropic) updated with the options, so an option wins over a base
  parameter of the same name; the messages of the request are always the adapter's.
  The Gemini adapter passes the options to the constructor of the generation config,
  next to \<^verbatim>\<open>max_output_tokens\<close> and \<^verbatim>\<open>system_instruction\<close>; for options that do not
  repeat \<^verbatim>\<open>system_instruction\<close> either, the request carries the config built from all
  of them. The model and the contents of a Gemini request are the adapter's own,
  whatever the options are.
\<close>

theorem call_complete_params_merge:
  assumes "distinct (map fst options)"
  shows
  "(map_of options ''self'' \<noteq> None \<or> map_of options ''messages'' \<noteq> None \<or>
    map_of options ''max_output_tokens'' \<noteq> None \<longrightarrow>
      call_complete (OpenAIAdapter_complete normalize_messages create self messages n) options =
        ([], Inl TypeError) \<and>
      call_complete (LocalAdapter_complete normalize_messages create self messages n) options =
        ([], Inl TypeError) \<and>
      call_complete (AnthropicAdapter_complete to_antrophic messages_create self messages n)
        options = ([], Inl TypeError) \<and>
      call_complete (GoogleGeminiAdapter_complete to_gemini_messages GenerateContentConfig
        generate_content self messages n) options = ([], Inl TypeError)) \<and>
   (map_of options ''self'' = None \<and> map_of options ''messages'' = None \<and>
    map_of options ''max_output_tokens'' = None \<longrightarrow>
      (normalize_messages messages [(''allow_system'', PBool (allow_system self))] = Inr norm \<and>
       norm \<noteq> [] \<longrightarrow>
         (\<exists>params.
            fst (call_complete (OpenAIAdapter_complete normalize_messages create self messages n)
                   options) = [params] \<and>
            map_of params =
              map_of [(''model'', PStr (model self)), (''messages'', PList (map PDict norm)),
                      (''max_tokens'', PInt n)] ++ map_of options \<and>
            map_of params ''messages'' = Some (PList (map PDict norm)))) \<and>
      (normalize_messages messages
             [(''merge_system_into_user'', PBool True),
              (''keep_system'', PBool (allow_system self))] = Inr norm \<and>
       norm \<noteq> [] \<longrightarrow>
         (\<exists>params.
            fst (call_complete (LocalAdapter_complete normalize_messages create self messages n)
                   options) = [params] \<and>
            map_of params =
              map_of [(''model'', PStr (model self)), (''messages'', PList (map PDict norm)),
                      (''max_tokens'', PInt n)] ++ map_of options \<and>
            map_of params ''messages'' = Some (PList (map PDict norm)))) \<and>
      (\<exists>params.
         fst (call_complete (AnthropicAdapter_complete to_antrophic messages_create self
                messages n) options) = [params] \<and>
         map_of params =
           map_of [(''model'', PStr (model self)),
                   (''system'', fst (AnthropicAdapter_split to_antrophic messages)),
                   (''messages'', PList (snd (AnthropicAdapter_split to_antrophic messages))),
                   (''max_tokens'', PInt n)] ++ map_of options \<and>
         map_of params ''messages'' =
           Some (PList (snd (AnthropicAdapter_split to_antrophic messages)))) \<and>
      (to_gemini_messages messages = (system_instruction, contents) \<and> contents \<noteq> [] \<and>
       map_of options ''system_instruction'' = None \<and>
       GenerateContentConfig
         ([(''max_output_tokens'', PInt n), (''system_instruction'', system_instruction)] @
          options) = Inr config \<longrightarrow>
         fst (call_complete (GoogleGeminiAdapter_complete to_gemini_messages
                GenerateContentConfig generate_content self messages n) options) =
           [[(''model'', PStr (model self)), (''contents'', PList contents),
             (''config'', config)]])) \<and>
   list_all (\<lambda>request. map_of request ''model'' = Some (PStr (model self)) \<and>
                        map_of request ''contents'' =
                          Some (PList (snd (to_gemini_messages messages))))
     (fst (call_complete (GoogleGeminiAdapter_complete to_gemini_messages GenerateContentConfig
             generate_content self messages n) options))"
proof (intro conjI impI)
  assume r: "map_of options ''self'' \<noteq> None \<or> map_of options ''messages'' \<noteq> None \<or>
    map_of options ''max_output_tokens'' \<noteq> None"
  show "call_complete (OpenAIAdapter_complete normalize_messages create self messages n) options =
        ([], Inl TypeError)"
    by (rule call_complete_repeated [OF r])
  show "call_complete (LocalAdapter_complete normalize_messages create self messages n) options =
        ([], Inl TypeError)"
    by (rule call_complete_repeated [OF r])
  show "call_complete (AnthropicAdapter_complete to_antrophic messages_create self messages n)
        options = ([], Inl TypeError)"
    by (rule call_complete_repeated [OF r])
  show "call_complete (GoogleGeminiAdapter_complete to_gemini_messages GenerateContentConfig
        generate_content self messages n) options = ([], Inl TypeError)"
    by (rule call_complete_repeated [OF r])
next
  assume b: "map_of options ''self'' = None \<and> map_of options ''messages'' = None \<and>
    map_of options ''max_output_tokens'' = None"
  assume "normalize_messages messages [(''allow_system'', PBool (allow_system self))] = Inr norm \<and>
       norm \<noteq> []"
  then obtain params where
    "fst (OpenAIAdapter_complete normalize_messages create self messages n options) = [params]"
    "map_of params =
       map_of [(''model'', PStr (model self)), (''messages'', PList (map PDict norm)),
               (''max_tokens'', PInt n)] ++ map_of options"
    using OpenAIAdapter_complete_params [OF assms] by blast
  with b show "\<exists>params.
            fst (call_complete (OpenAIAdapter_complete normalize_messages create self messages n)
                   options) = [params] \<and>
            map_of params =
              map_of [(''model'', PStr (model self)), (''messages'', PList (map PDict norm)),
                      (''max_tokens'', PInt n)] ++ map_of options \<and>
            map_of params ''messages'' = Some (PList (map PDict norm))"
    by (simp add: call_complete_bound map_add_def)
next
  assume b: "map_of options ''self'' = None \<and> map_of options ''messages'' = None \<and>
    map_of options ''max_output_tokens'' = None"
  assume "normalize_messages messages
             [(''merge_system_into_user'', PBool True),
              (''keep_system'', PBool (allow_system self))] = Inr norm \<and>
       norm \<noteq> []"
  then obtain params where
    "fst (LocalAdapter_complete normalize_messages create self messages n options) = [params]"
    "map_of params =
       map_of [(''model'', PStr (model self)), (''messages'', PList (map PDict norm)),
               (''max_tokens'', PInt n)] ++ map_of options"
    using LocalAdapter_complete_params [OF assms] by blast
  with b show "\<exists>params.
            fst (call_complete (LocalAdapter_complete normalize_messages create self messages n)
                   options) = [params] \<and>
            map_of params =
              map_of [(''model'', PStr (model self)), (''messages'', PList (map PDict norm)),
                      (''max_tokens'', PInt n)] ++ map_of options \<and>
            map_of params ''messages'' = Some (PList (map PDict norm))"
    by (simp add: call_complete_bound map_add_def)
next
  assume b: "map_of options ''self'' = None \<and> map_of options ''messages'' = None \<and>
    map_of options ''max_output_tokens'' = None"
  from AnthropicAdapter_complete_params [OF assms] obtain params where
    "fst (AnthropicAdapter_complete to_antrophic messages_create self messages n options) =
       [params]"
    "map_of params =
       map_of [(''model'', PStr (model self)),
               (''system'', fst (AnthropicAdapter_split to_antrophic messages)),
               (''messages'', PList (snd (AnthropicAdapter_split to_antrophic messages))),
               (''max_tokens'', PInt n)] ++ map_of options"
    by blast
  with b show "\<exists>params.
         fst (call_complete (AnthropicAdapter_complete to_antrophic messages_create self
                messages n) options) = [params] \<and>
         map_of params =
           map_of [(''model'', PStr (model self)),
                   (''system'', fst (AnthropicAdapter_split to_antrophic messages)),
                   (''messages'', PList (snd (AnthropicAdapter_split to_antrophic messages))),
                   (''max_tokens'', PInt n)] ++ map_of options \<and>
         map_of params ''messages'' =
           Some (PList (snd (AnthropicAdapter_split to_antrophic messages)))"
    by (simp add: call_complete_bound map_add_def)
next
  assume b: "map_of options ''self'' = None \<and> map_of options ''messages'' = None \<and>
    map_of options ''max_output_tokens'' = None"
  assume a: "to_gemini_messages messages = (system_instruction, contents) \<and> contents \<noteq> [] \<and>
       map_of options ''system_instruction'' = None \<and>
       GenerateContentConfig
         ([(''max_output_tokens'', PInt n), (''system_instruction'', system_instruction)] @
          options) = Inr config"
  with b have "\<not> list_ex (\<lambda>k. List.member
                 (map fst [(''max_output_tokens'', PInt n),
                           (''system_instruction'', system_instruction)]) k) (map fst options)"
    by (force simp: list_ex_iff map_of_eq_None_iff)
  then have "keyword_args [(''max_output_tokens'', PInt n),
                           (''system_instruction'', system_instruction)] options =
             Inr ([(''max_output_tokens'', PInt n),
                   (''system_instruction'', system_instruction)] @ options)"
    by (rule keyword_args_no_collision)
  with a b show "fst (call_complete (GoogleGeminiAdapter_complete to_gemini_messages
                GenerateContentConfig generate_content self messages n) options) =
           [[(''model'', PStr (model self)), (''contents'', PList contents),
             (''config'', config)]]"
    using GoogleGeminiAdapter_complete_request [of to_gemini_messages messages system_instruction
        contents GenerateContentConfig generate_content self n options]
    by (simp add: bind_def call_complete_bound)
next
  show "list_all (\<lambda>request. map_of request ''model'' = Some (PStr (model self)) \<and>
                        map_of request ''contents'' =
                          Some (PList (snd (to_gemini_messages messages))))
     (fst (call_complete (GoogleGeminiAdapter_complete to_gemini_messages GenerateContentConfig
             generate_content self messages n) options))"
    by (simp add: call_complete_def GoogleGeminiAdapter_complete_def Let_def case_prod_beta
        split: sum.splits)
qed

text \<open>
  C6, as it is stated, lets the caller's value win on any key collision, for every
  adapter. In the Gemini adapter the option \<^verbatim>\<open>system_instruction\<close> collides with the
  keyword written out in the call of \<^verbatim>\<open>GenerateContentConfig\<close> (line 177): the call
  raises \<^verbatim>\<open>TypeError\<close> and no request is sent.
\<close>

theorem gemini_call_repeated_keyword_raises:
  "call_complete
     (GoogleGeminiAdapter_complete example_to_gemini_messages example_GenerateContentConfig
        example_generate_content \<lparr>model = ''gemini-2.5-flash''\<rparr>
        [[(''role'', PStr ''user''), (''content'', PStr ''Hi'')]] 16)
     [(''system_instruction'', PStr ''Be brief'')] = ([], Inl TypeError)"
  by (simp add: call_complete_def named_parameters_def GoogleGeminiAdapter_complete_def
      example_to_gemini_messages_def keyword_args_def bind_def)

theorem call_complete_params_merge_witness:
  "distinct (map fst [(''max_tokens'', PInt 5), (''temperature'', PInt 0)]) \<and>
   fst (call_complete
          (OpenAIAdapter_complete example_normalize_messages example_create
             \<lparr>model = ''gpt-4o'', allow_system = True\<rparr>
             [[(''role'', PStr ''user''), (''content'', PStr ''Hi'')]] 16)
          [(''max_tokens'', PInt 5), (''temperature'', PInt 0)]) =
     [[(''model'', PStr ''gpt-4o''),
       (''messages'', PList [PDict [(''role'', PStr ''user''), (''content'', PStr ''Hi'')]]),
       (''max_tokens'', PInt 5),
       (''temperature'', PInt 0)]] \<and>
   fst (call_complete
          (LocalAdapter_complete example_normalize_messages example_create
             \<lparr>model = ''llama3'', allow_system = False\<rparr>
             [[(''role'', PStr ''user''), (''content'', PStr ''Hi'')]] 16)
          [(''max_tokens'', PInt 5), (''temperature'', PInt 0)]) =
     [[(''model'', PStr ''llama3''),
       (''messages'', PList [PDict [(''role'', PStr ''user''), (''content'', PStr ''Hi'')]]),
       (''max_tokens'', PInt 5),
       (''temperature'', PInt 0)]] \<and>
   map (\<lambda>params. map_of params ''max_tokens'')
     (fst (call_complete
             (AnthropicAdapter_complete example_to_antrophic example_messages_create
                \<lparr>model = ''claude''\<rparr>
                [[(''role'', PStr ''user''), (''content'', PStr ''Hi'')]] 16)
             [(''max_tokens'', PInt 5), (''temperature'', PInt 0)])) = [Some (PInt 5)] \<and>
   fst (call_complete
          (GoogleGeminiAdapter_complete example_to_gemini_messages example_GenerateContentConfig
             example_generate_content \<lparr>model = ''gemini-2.5-flash''\<rparr>
             [[(''role'', PStr ''user''), (''content'', PStr ''Hi'')]] 16)
          [(''max_tokens'', PInt 5), (''temperature'', PInt 0)]) =
     [[(''model'', PStr ''gemini-2.5-flash''),
       (''contents'',
        PList [PDict [(''role'', PStr ''user''),
                      (''parts'', PList [PDict [(''text'', PStr ''Hi'')]])]]),
       (''config'',
        PDict [(''max_output_tokens'', PInt 16), (''system_instruction'', PNone),
               (''max_tokens'', PInt 5), (''temperature'', PInt 0)])]] \<and>
   call_complete
     (AnthropicAdapter_complete example_to_antrophic example_messages_create
        \<lparr>model = ''claude''\<rparr>
        [[(''role'', PStr ''user''), (''content'', PStr ''Hi'')]] 16)
     [(''messages'', PList [])] = ([], Inl TypeError)"
proof -
  have d: "distinct (map fst [(''max_tokens'', PInt 5), (''temperature'', PInt 0)])"
    by simp
  have d': "distinct (map fst [(''messages'', PList [])])"
    by simp
  show ?thesis
    using call_complete_params_merge [OF d, where normalize_messages = example_normalize_messages
        and create = example_create
        and to_antrophic = example_to_antrophic
        and messages_create = example_messages_create
        and to_gemini_messages = example_to_gemini_messages
        and GenerateContentConfig = example_GenerateContentConfig
        and generate_content = example_generate_content
        and messages = "[[(''role'', PStr ''user''), (''content'', PStr ''Hi'')]]"
        and norm = "[[(''role'', PStr ''user''), (''content'', PStr ''Hi'')]]"
        and n = 16]
      call_complete_params_merge [OF d', where to_antrophic = example_to_antrophic
        and messages_create = example_messages_create
        and self = "\<lparr>model = ''claude'', allow_system = False\<rparr>"
        and messages = "[[(''role'', PStr ''user''), (''content'', PStr ''Hi'')]]"
        and n = 16]
    by (simp add: call_complete_def named_parameters_def
        OpenAIAdapter_complete_def LocalAdapter_complete_def
        AnthropicAdapter_complete_def AnthropicAdapter_params_def AnthropicAdapter_split_def
        GoogleGeminiAdapter_complete_def example_normalize_messages_def
        example_to_gemini_messages_def example_GenerateContentConfig_def
        example_to_antrophic_def keyword_args_def bind_def dict_update_def dict_get_def
        list_or_def Let_def)
qed

section \<open>The Normalizer's merge\<close>


























section \<open>Normalizing twice\<close>



end
